theory Spec2Isabelle
  imports Complex_Main
begin

section \<open>Emotion-based music player: playback controller\<close>

text \<open>
  The class \<open>MusicPlayer\<close> of \<open>music_player.py\<close> keeps four playback attributes
  (\<open>current_song\<close>, \<open>is_playing\<close>, \<open>volume\<close>, \<open>last_play_time\<close>) and drives
  \<open>pygame.mixer.music\<close>. Python floats are idealised as real numbers (no rounding, no
  NaN). The mixer is a library outside the repository: the model records every call
  issued to it, in order, and takes from the environment whether a call raises.
\<close>

datatype mixer_call = MLoad string | MSetVolume real | MPlay | MStop

record player =
  current_song :: "string option"
  is_playing :: bool
  volume :: real
  last_play_time :: real
  mixer_log :: "mixer_call list"

text \<open>
  What a call reads from outside the object: the clock (\<open>time.time()\<close>), the file system
  (\<open>os.path.exists\<close>, \<open>os.path.getsize\<close>, the latter raising \<open>OSError\<close> as \<open>None\<close>)
  and whether a mixer call raises.
\<close>

record env =
  now :: real
  path_exists :: "string \<Rightarrow> bool"
  getsize :: "string \<Rightarrow> nat option"
  mixer_raises :: "mixer_call \<Rightarrow> bool"

text \<open>\<open>self.min_play_interval = 1.0\<close>, assigned in \<open>__init__\<close> and never again.\<close>

definition min_play_interval :: real where
  "min_play_interval = 1"

text \<open>
  The playback attributes after \<open>__init__\<close>: the volume is set to 0.5 and sent to the
  mixer, then \<open>current_song = None\<close>, \<open>is_playing = False\<close>, \<open>last_play_time = 0\<close>.
\<close>

definition init_player :: player where
  "init_player =
     \<lparr>current_song = None, is_playing = False, volume = 1 / 2, last_play_time = 0,
      mixer_log = [MSetVolume (1 / 2)]\<rparr>"

text \<open>One call to the mixer: it is appended to the log whether or not it raises.\<close>

definition issue :: "mixer_call \<Rightarrow> player \<Rightarrow> player" where
  "issue c s = s\<lparr>mixer_log := mixer_log s @ [c]\<rparr>"

text \<open>
  \<open>stop_song\<close>: only when \<open>is_playing\<close>; an exception of \<open>mixer.music.stop()\<close> is caught
  inside \<open>stop_song\<close> and leaves the attributes as they were.
\<close>

definition stop_song :: "env \<Rightarrow> player \<Rightarrow> player" where
  "stop_song e s =
     (if is_playing s then
        (if mixer_raises e MStop then issue MStop s
         else (issue MStop s)\<lparr>current_song := None, is_playing := False\<rparr>)
      else s)"

text \<open>
  \<open>play_song\<close>, branch by branch in the order of the source: the interval guard, the
  already-playing test, the existence and size tests, stopping the current track, then
  \<open>load\<close>, \<open>set_volume\<close>, \<open>play\<close> inside the inner \<open>try\<close>. Every exception is caught and
  gives \<open>False\<close>; the attributes are assigned only after \<open>play\<close> has returned.
\<close>

definition play_song :: "env \<Rightarrow> player \<Rightarrow> string \<Rightarrow> bool \<times> player" where
  "play_song e s song_path =
     (let current_time = now e in
      if current_time - last_play_time s < min_play_interval then (False, s)
      else if current_song s = Some song_path \<and> is_playing s then (True, s)
      else if \<not> path_exists e song_path then (False, s)
      else (case getsize e song_path of
              None \<Rightarrow> (False, s)
            | Some n \<Rightarrow>
                if n = 0 then (False, s)
                else
                  (let s1 = (if is_playing s then stop_song e s else s);
                       s2 = issue (MLoad song_path) s1
                   in if mixer_raises e (MLoad song_path) then (False, s2)
                      else
                        (let s3 = issue (MSetVolume (volume s2)) s2
                         in if mixer_raises e (MSetVolume (volume s2)) then (False, s3)
                            else
                              (let s4 = issue MPlay s3
                               in if mixer_raises e MPlay then (False, s4)
                                  else (True, s4\<lparr>current_song := Some song_path,
                                                  is_playing := True,
                                                  last_play_time := current_time\<rparr>))))))"

text \<open>
  \<open>set_volume\<close>: the attribute is assigned the clamped value first, then the mixer is
  called; an exception there is caught and gives \<open>False\<close>.
\<close>

definition set_volume :: "env \<Rightarrow> player \<Rightarrow> real \<Rightarrow> bool \<times> player" where
  "set_volume e s v =
     (let s1 = s\<lparr>volume := max 0 (min 1 v)\<rparr>;
          s2 = issue (MSetVolume (volume s1)) s1
      in if mixer_raises e (MSetVolume (volume s1)) then (False, s2) else (True, s2))"

text \<open>\<open>get_playback_status\<close>: the three attributes it reports.\<close>

definition get_playback_status :: "player \<Rightarrow> bool \<times> string option \<times> real" where
  "get_playback_status s = (is_playing s, current_song s, volume s)"

text \<open>The invariant of the playback state: a current song is recorded iff one is playing.\<close>

definition playback_inv :: "player \<Rightarrow> bool" where
  "playback_inv s = ((current_song s \<noteq> None) = is_playing s)"

text \<open>Concrete environments and states used to run the controller.\<close>

definition env_ok :: "real \<Rightarrow> env" where
  "env_ok t = \<lparr>now = t, path_exists = (\<lambda>_. True), getsize = (\<lambda>_. Some 4096),
               mixer_raises = (\<lambda>_. False)\<rparr>"

definition env_load_fails :: "real \<Rightarrow> string \<Rightarrow> env" where
  "env_load_fails t bad = \<lparr>now = t, path_exists = (\<lambda>_. True), getsize = (\<lambda>_. Some 4096),
               mixer_raises = (\<lambda>c. c = MLoad bad)\<rparr>"

definition env_mixer_down :: "real \<Rightarrow> env" where
  "env_mixer_down t = \<lparr>now = t, path_exists = (\<lambda>_. True), getsize = (\<lambda>_. Some 4096),
               mixer_raises = (\<lambda>_. True)\<rparr>"

definition playing :: "string \<Rightarrow> real \<Rightarrow> player" where
  "playing p t = \<lparr>current_song = Some p, is_playing = True, volume = 1 / 2,
                  last_play_time = t,
                  mixer_log = [MSetVolume (1 / 2), MLoad p, MSetVolume (1 / 2), MPlay]\<rparr>"

section \<open>Emotion classifier adapter\<close>

text \<open>Exceptions of the Python run time that the code catches, as values.\<close>

datatype py_error = ValueError | KeyError | OSError | DetectorError

text \<open>
  The external detector returns, per face, a dictionary of scores by label (its
  \<open>'emotions'\<close> entry, here the items in dictionary order), or raises. Python's \<open>max\<close> with
  a key keeps the first item of greatest score and raises \<open>ValueError\<close> on no items.
\<close>

type_synonym emotions_dict = "(string \<times> real) list"

fun max_by_score :: "string \<times> real \<Rightarrow> emotions_dict \<Rightarrow> string \<times> real" where
  "max_by_score best [] = best"
| "max_by_score best (x # xs) = max_by_score (if snd best < snd x then x else best) xs"

definition py_max :: "emotions_dict \<Rightarrow> py_error + string \<times> real" where
  "py_max items = (case items of [] \<Rightarrow> Inl ValueError | x # xs \<Rightarrow> Inr (max_by_score x xs))"

definition emotion_map :: "(string \<times> real \<times> real) list" where
  "emotion_map =
     [(''happy'', (8 / 10, 8 / 10)),
      (''sad'', (- (8 / 10), - (4 / 10))),
      (''angry'', (- (7 / 10), 8 / 10)),
      (''neutral'', (0, 0)),
      (''fear'', (- (8 / 10), 5 / 10)),
      (''surprise'', (4 / 10, 8 / 10)),
      (''disgust'', (- (8 / 10), 1 / 10))]"

text \<open>\<open>emotion_map.get(emotion, (0.0, 0.0))\<close>.\<close>

definition emotion_to_valence_arousal :: "string \<Rightarrow> real \<times> real" where
  "emotion_to_valence_arousal emotion =
     (case map_of emotion_map emotion of Some va \<Rightarrow> va | None \<Rightarrow> (0, 0))"

text \<open>
  \<open>detect_emotion\<close>: the detector is a parameter; every exception inside the \<open>try\<close> (the
  detector's own, or \<open>max\<close> on an empty dictionary) gives \<open>(None, 0, 0)\<close>, as does an
  empty list of faces.
\<close>

definition detect_emotion ::
  "('frame \<Rightarrow> py_error + emotions_dict list) \<Rightarrow> 'frame \<Rightarrow> string option \<times> real \<times> real" where
  "detect_emotion detect_emotions frame =
     (case detect_emotions frame of
        Inl _ \<Rightarrow> (None, 0, 0)
      | Inr emotions \<Rightarrow>
          (case emotions of
             [] \<Rightarrow> (None, 0, 0)
           | emotions_dict # _ \<Rightarrow>
               (case py_max emotions_dict of
                  Inl _ \<Rightarrow> (None, 0, 0)
                | Inr (dominant_emotion, _) \<Rightarrow>
                    (let (valence, arousal) = emotion_to_valence_arousal dominant_emotion
                     in (Some dominant_emotion, valence, arousal)))))"

text \<open>A detector for one frame showing a face scored mostly sad.\<close>

definition sad_face :: "unit \<Rightarrow> py_error + emotions_dict list" where
  "sad_face frame = Inr [[(''angry'', 1 / 10), (''sad'', 7 / 10), (''neutral'', 2 / 10)]]"

section \<open>Song table and matcher\<close>

text \<open>
  A row of the table that \<open>load_dataset\<close> leaves in \<open>merged_df\<close>: its index label, the song
  id, the per-song mean feature vector (loaded but never read by the matcher), the
  audio path and the two annotation averages.
\<close>

record song =
  idx :: nat
  song_id :: int
  features :: "real list"
  audio_path :: string
  valence_average :: real
  arousal_average :: real

text \<open>
  \<open>find_matching_song\<close> adds the column \<open>distance\<close> to that table. The column does not
  exist before the first query; the function assigns it before reading it, so a row of
  the matcher's table carries a distance that holds any value until then.
\<close>

record 'f song_row = song +
  distance :: 'f

text \<open>
  The distance is computed by numpy in float64 arithmetic, which is outside the
  repository: the four operations of the source's expression are a parameter. Their
  results live in a type \<open>'f\<close> that is only required to be linearly ordered, as the
  float64 numbers with the infinities are (the table and the query hold finite numbers,
  so no operation meets a NaN). Every result about the matcher holds for every choice
  of the four operations, hence for numpy's.
\<close>

record 'f float64_ops =
  f_sub :: "real \<Rightarrow> real \<Rightarrow> 'f"
  f_square :: "'f \<Rightarrow> 'f"
  f_add :: "'f \<Rightarrow> 'f \<Rightarrow> 'f"
  f_sqrt :: "'f \<Rightarrow> 'f"

text \<open>
  Arithmetic without rounding. It agrees with float64 arithmetic wherever no operation
  rounds, as on the small integers of the crowded table below.
\<close>

definition exact_ops :: "real float64_ops" where
  "exact_ops = \<lparr>f_sub = (\<lambda>x y. x - y), f_square = (\<lambda>x. x\<^sup>2), f_add = (\<lambda>x y. x + y),
                 f_sqrt = sqrt\<rparr>"

text \<open>\<open>np.sqrt((valence_average - valence) ** 2 + (arousal_average - arousal) ** 2)\<close>.\<close>

definition computed_distance ::
  "'f float64_ops \<Rightarrow> real \<Rightarrow> real \<Rightarrow> ('f, 'a) song_row_scheme \<Rightarrow> 'f" where
  "computed_distance ops valence arousal r =
     f_sqrt ops (f_add ops (f_square ops (f_sub ops (valence_average r) valence))
                           (f_square ops (f_sub ops (arousal_average r) arousal)))"

text \<open>\<open>self.merged_df['distance'] = ...\<close>: the column is overwritten in every row.\<close>

definition assign_distance ::
  "'f float64_ops \<Rightarrow> real \<Rightarrow> real \<Rightarrow> 'f song_row list \<Rightarrow> 'f song_row list" where
  "assign_distance ops valence arousal df =
     map (\<lambda>r. r\<lparr>distance := computed_distance ops valence arousal r\<rparr>) df"

text \<open>
  \<open>Series.idxmin()\<close>: the label of the first occurrence of the least value, found by a
  scan that replaces the best row only on a strictly smaller distance; \<open>ValueError\<close> on
  an empty column.
\<close>

fun first_min :: "('f::linorder) song_row \<Rightarrow> 'f song_row list \<Rightarrow> 'f song_row" where
  "first_min best [] = best"
| "first_min best (r # rs) = first_min (if distance r < distance best then r else best) rs"

definition idxmin :: "('f::linorder) song_row list \<Rightarrow> py_error + nat" where
  "idxmin df = (case df of [] \<Rightarrow> Inl ValueError | r # rs \<Rightarrow> Inr (idx (first_min r rs)))"

text \<open>\<open>df.loc[label]\<close>: the row carrying that label, \<open>KeyError\<close> when there is none.\<close>

definition loc :: "'f song_row list \<Rightarrow> nat \<Rightarrow> py_error + 'f song_row" where
  "loc df label = (case filter (\<lambda>r. idx r = label) df of [] \<Rightarrow> Inl KeyError | r # _ \<Rightarrow> Inr r)"

text \<open>
  \<open>find_matching_song\<close> returns the row (or none) together with the table it leaves in
  \<open>self.merged_df\<close>. \<open>file_exists\<close> is \<open>os.path.exists\<close> at the time of the call. A missing
  file drops every row labelled like the closest one and calls the function again from
  inside its own \<open>try\<close>.

  The first argument is the number of nested invocations that the interpreter's
  recursion limit (1000 frames unless changed, and the repository never changes it)
  still admits. With none left the invocation ends in \<open>RecursionError\<close>; like every
  exception (\<open>idxmin\<close> on the empty table is the other one) it is caught by
  \<open>except Exception\<close> and gives none, and the rows dropped so far stay dropped.
\<close>

fun find_matching_song ::
  "nat \<Rightarrow> ('f::linorder) float64_ops \<Rightarrow> (string \<Rightarrow> bool) \<Rightarrow> 'f song_row list \<Rightarrow> real \<Rightarrow> real \<Rightarrow>
     'f song_row option \<times> 'f song_row list" where
  "find_matching_song 0 ops file_exists merged_df valence arousal = (None, merged_df)"
| "find_matching_song (Suc depth) ops file_exists merged_df valence arousal =
     (let df = assign_distance ops valence arousal merged_df in
      case idxmin df of
        Inl _ \<Rightarrow> (None, df)
      | Inr label \<Rightarrow>
          (case loc df label of
             Inl _ \<Rightarrow> (None, df)
           | Inr closest_song \<Rightarrow>
               if file_exists (audio_path closest_song) then (Some closest_song, df)
               else find_matching_song depth ops file_exists
                      (filter (\<lambda>r. idx r \<noteq> idx closest_song) df) valence arousal))"

text \<open>
  A session: the queries the presentation loop makes one after the other, each with
  the recursion depth and the file system of its moment, on the table the previous
  query left.
\<close>

fun run_queries ::
  "('f::linorder) float64_ops \<Rightarrow> 'f song_row list \<Rightarrow>
     (nat \<times> (string \<Rightarrow> bool) \<times> real \<times> real) list \<Rightarrow>
     'f song_row option list \<times> 'f song_row list" where
  "run_queries ops df [] = ([], df)"
| "run_queries ops df ((depth, file_exists, valence, arousal) # qs) =
     (case find_matching_song depth ops file_exists df valence arousal of
        (r, df') \<Rightarrow> (case run_queries ops df' qs of (rs, df'') \<Rightarrow> (r # rs, df'')))"

text \<open>The two-row table of the specification's example: only the first audio file exists.\<close>

definition song1 :: "real song_row" where
  "song1 = \<lparr>idx = 0, song_id = 1, features = [], audio_path = ''1.mp3'',
            valence_average = 8 / 10, arousal_average = 8 / 10, distance = 0\<rparr>"

definition song2 :: "real song_row" where
  "song2 = \<lparr>idx = 1, song_id = 2, features = [], audio_path = ''2.mp3'',
            valence_average = - (8 / 10), arousal_average = - (4 / 10), distance = 0\<rparr>"


definition only_song1_on_disk :: "string \<Rightarrow> bool" where
  "only_song1_on_disk p = (p = ''1.mp3'')"




section \<open>Dataset loader\<close>

text \<open>
  \<open>load_dataset\<close> reads one feature file per song id in \<open>range(2, 2058)\<close> (a missing or
  unreadable file is skipped), reads the two annotation tables, averages the annotation
  rows per song id, and merges features and labels on \<open>song_id\<close>. The file contents
  arrive as parameters: \<open>read_features\<close> gives the mean feature vector of a song's file
  (\<open>None\<close> when the file is missing or its processing raised), \<open>audio_file\<close> the audio path
  built from the configured directory, and each annotation table is the parsed rows or
  the exception of reading them. Values are reals, so there is no missing value for the
  final \<open>fillna\<close> to replace.
\<close>

record feature_row =
  f_song_id :: int
  f_features :: "real list"
  f_audio_path :: string

record label_row =
  l_song_id :: int
  l_valence_average :: real
  l_arousal_average :: real

definition song_id_range :: "int list" where
  "song_id_range = [2..2057]"

definition load_features :: "(int \<Rightarrow> real list option) \<Rightarrow> (int \<Rightarrow> string) \<Rightarrow> feature_row list" where
  "load_features read_features audio_file =
     concat (map (\<lambda>song_id.
        case read_features song_id of
          None \<Rightarrow> []
        | Some mean_features \<Rightarrow>
            [\<lparr>f_song_id = song_id, f_features = mean_features,
              f_audio_path = audio_file song_id\<rparr>]) song_id_range)"

definition mean :: "real list \<Rightarrow> real" where
  "mean xs = sum_list xs / real (length xs)"

text \<open>\<open>groupby('song_id').agg(mean).reset_index()\<close>: one row per song id, ids ascending.\<close>

definition groupby_mean :: "label_row list \<Rightarrow> label_row list" where
  "groupby_mean labels =
     map (\<lambda>k. let g = filter (\<lambda>r. l_song_id r = k) labels in
            \<lparr>l_song_id = k,
             l_valence_average = mean (map l_valence_average g),
             l_arousal_average = mean (map l_arousal_average g)\<rparr>)
         (sort (remdups (map l_song_id labels)))"

text \<open>
  \<open>pd.merge(features_df, labels_df, on='song_id')\<close>: the default inner join, pairing each
  feature row with the label rows of the same song id, in the order of the left table,
  under a fresh index 0, 1, 2, ...
\<close>

definition matching_rows :: "feature_row list \<Rightarrow> label_row list \<Rightarrow> (feature_row \<times> label_row) list" where
  "matching_rows features_df labels_df =
     concat (map (\<lambda>f. map (Pair f) (filter (\<lambda>l. l_song_id l = f_song_id f) labels_df))
                 features_df)"

definition merge :: "feature_row list \<Rightarrow> label_row list \<Rightarrow> song list" where
  "merge features_df labels_df =
     map (\<lambda>(i, (f, l)).
            \<lparr>idx = i, song_id = f_song_id f, features = f_features f,
             audio_path = f_audio_path f,
             valence_average = l_valence_average l,
             arousal_average = l_arousal_average l\<rparr>)
         (enumerate 0 (matching_rows features_df labels_df))"

text \<open>
  \<open>pd.concat\<close> of an empty list raises \<open>ValueError\<close>; every exception ends the load.
\<close>

definition load_dataset ::
  "(int \<Rightarrow> real list option) \<Rightarrow> (int \<Rightarrow> string) \<Rightarrow>
     py_error + label_row list \<Rightarrow> py_error + label_row list \<Rightarrow> py_error + song list" where
  "load_dataset read_features audio_file annotations_1 annotations_2 =
     (let features_list = load_features read_features audio_file in
      if features_list = [] then Inl ValueError
      else (case annotations_1 of
              Inl e \<Rightarrow> Inl e
            | Inr labels_1 \<Rightarrow>
                (case annotations_2 of
                   Inl e \<Rightarrow> Inl e
                 | Inr labels_2 \<Rightarrow>
                     Inr (merge features_list (groupby_mean (labels_1 @ labels_2))))))"

text \<open>A small dataset: feature files for songs 2 and 3, an annotation for song 2 only.\<close>

definition two_feature_files :: "int \<Rightarrow> real list option" where
  "two_feature_files k = (if k = 2 \<or> k = 3 then Some [1, 2] else None)"

definition mp3_of :: "int \<Rightarrow> string" where
  "mp3_of k = (if k = 2 then ''2.mp3'' else if k = 3 then ''3.mp3'' else ''other.mp3'')"

definition annotation_of_song2 :: "label_row list" where
  "annotation_of_song2 =
     [\<lparr>l_song_id = 2, l_valence_average = 1 / 2, l_arousal_average = 1 / 4\<rparr>]"

section \<open>Playback controller: results\<close>

lemma play_song_fresh_start:
  "play_song (env_ok 10) init_player ''a.mp3'' = (True, playing ''a.mp3'' 10)"
  by (simp add: play_song_def env_ok_def init_player_def playing_def issue_def
      min_play_interval_def)

lemma play_song_True_state:
  "fst (play_song e s p) \<Longrightarrow>
     current_song (snd (play_song e s p)) = Some p \<and> is_playing (snd (play_song e s p))"
  by (auto simp: play_song_def Let_def split: if_splits option.splits)

lemma play_song_already_playing:
  "current_song s = Some p \<Longrightarrow> is_playing s \<Longrightarrow>
     play_song e s p = (min_play_interval \<le> now e - last_play_time s, s)"
  by (auto simp: play_song_def Let_def)

text \<open>
  C4. A call to \<open>play_song\<close> made less than the minimum interval (1.0) after the time
  stored by the last successful start returns false and changes nothing: the whole
  player state, \<open>current_song\<close> included, is the one before the call.
\<close>

theorem play_song_within_interval:
  "now e - last_play_time s < 1 \<Longrightarrow> play_song e s p = (False, s)"
  by (simp add: play_song_def min_play_interval_def)

theorem play_song_within_interval_witness:
  "now (env_ok (21 / 2)) - last_play_time (playing ''a.mp3'' 10) < 1 \<and>
   play_song (env_ok (21 / 2)) (playing ''a.mp3'' 10) ''b.mp3'' = (False, playing ''a.mp3'' 10) \<and>
   current_song (playing ''a.mp3'' 10) = Some ''a.mp3''"
proof -
  have h: "now (env_ok (21 / 2)) - last_play_time (playing ''a.mp3'' 10) < 1"
    by (simp add: env_ok_def playing_def)
  from play_song_within_interval [OF h, of "''b.mp3''"] h show ?thesis
    by (simp add: playing_def)
qed

text \<open>
  C10. \<open>last_play_time\<close> moves only when \<open>play_song\<close> loads and starts a track: a call
  that returns false leaves it as it was, a call for the song that is already playing
  leaves it as it was (so it does not restart the interval clock), and whenever it does
  change, the call returned true, the new value is the time of the call, and the mixer
  was sent \<open>load\<close>, \<open>set_volume\<close>, \<open>play\<close> for the requested path. \<open>stop_song\<close> and
  \<open>set_volume\<close> never touch it.
\<close>

theorem last_play_time_frame:
  "(\<not> fst (play_song e s p) \<longrightarrow>
      last_play_time (snd (play_song e s p)) = last_play_time s) \<and>
   (current_song s = Some p \<and> is_playing s \<longrightarrow>
      last_play_time (snd (play_song e s p)) = last_play_time s) \<and>
   (last_play_time (snd (play_song e s p)) \<noteq> last_play_time s \<longrightarrow>
      fst (play_song e s p) \<and>
      last_play_time (snd (play_song e s p)) = now e \<and>
      (\<exists>before. mixer_log (snd (play_song e s p)) =
         before @ [MLoad p, MSetVolume (volume s), MPlay])) \<and>
   last_play_time (stop_song e s) = last_play_time s \<and>
   last_play_time (snd (set_volume e s v)) = last_play_time s"
  by (auto simp: play_song_def stop_song_def set_volume_def issue_def Let_def
      split: option.splits)

theorem last_play_time_frame_witness:
  "\<not> fst (play_song (env_ok (21 / 2)) (playing ''a.mp3'' 10) ''b.mp3'') \<and>
   last_play_time (snd (play_song (env_ok (21 / 2)) (playing ''a.mp3'' 10) ''b.mp3'')) = 10 \<and>
   current_song (playing ''a.mp3'' 10) = Some ''a.mp3'' \<and> is_playing (playing ''a.mp3'' 10) \<and>
   fst (play_song (env_ok 12) (playing ''a.mp3'' 10) ''a.mp3'') \<and>
   last_play_time (snd (play_song (env_ok 12) (playing ''a.mp3'' 10) ''a.mp3'')) = 10 \<and>
   last_play_time (snd (play_song (env_ok 12) (playing ''a.mp3'' 10) ''b.mp3'')) \<noteq> 10 \<and>
   fst (play_song (env_ok 12) (playing ''a.mp3'' 10) ''b.mp3'') \<and>
   last_play_time (snd (play_song (env_ok 12) (playing ''a.mp3'' 10) ''b.mp3'')) = 12"
proof -
  have a: "\<not> fst (play_song (env_ok (21 / 2)) (playing ''a.mp3'' 10) ''b.mp3'')"
    by (simp add: play_song_def env_ok_def playing_def min_play_interval_def)
  have b: "current_song (playing ''a.mp3'' 10) = Some ''a.mp3'' \<and> is_playing (playing ''a.mp3'' 10)"
    by (simp add: playing_def)
  have c: "fst (play_song (env_ok 12) (playing ''a.mp3'' 10) ''a.mp3'')"
    by (simp add: play_song_def env_ok_def playing_def min_play_interval_def)
  have d: "last_play_time (snd (play_song (env_ok 12) (playing ''a.mp3'' 10) ''b.mp3'')) \<noteq> 10"
    by (simp add: play_song_def stop_song_def issue_def env_ok_def playing_def
        min_play_interval_def)
  have l: "last_play_time (playing ''a.mp3'' 10) = 10" "now (env_ok 12) = 12"
    by (simp_all add: playing_def env_ok_def)
  from last_play_time_frame [of "env_ok (21 / 2)" "playing ''a.mp3'' 10" "''b.mp3''"]
    last_play_time_frame [of "env_ok 12" "playing ''a.mp3'' 10" "''a.mp3''"]
    last_play_time_frame [of "env_ok 12" "playing ''a.mp3'' 10" "''b.mp3''"]
    a b c d l
  show ?thesis by simp
qed

text \<open>
  C5. The invariant "a current song is recorded iff a song is playing" holds after
  \<open>__init__\<close> and is kept by \<open>play_song\<close> (whatever branch it takes, for every
  environment), by \<open>stop_song\<close> and by \<open>set_volume\<close>.
\<close>

theorem playback_inv_preserved:
  "playback_inv init_player \<and>
   (playback_inv s \<longrightarrow> playback_inv (snd (play_song e s p))) \<and>
   (playback_inv s \<longrightarrow> playback_inv (stop_song e s)) \<and>
   (playback_inv s \<longrightarrow> playback_inv (snd (set_volume e s v)))"
  by (auto simp: playback_inv_def init_player_def play_song_def stop_song_def
      set_volume_def issue_def Let_def split: option.splits)

theorem playback_inv_preserved_witness:
  "playback_inv (playing ''a.mp3'' 10) \<and>
   playback_inv (snd (play_song (env_load_fails 12 ''b.mp3'') (playing ''a.mp3'' 10) ''b.mp3'')) \<and>
   playback_inv (stop_song (env_ok 12) (playing ''a.mp3'' 10)) \<and>
   playback_inv (snd (set_volume (env_ok 12) (playing ''a.mp3'' 10) 2))"
proof -
  have h: "playback_inv (playing ''a.mp3'' 10)"
    by (simp add: playback_inv_def playing_def)
  from playback_inv_preserved [of "playing ''a.mp3'' 10" "env_load_fails 12 ''b.mp3''" "''b.mp3''"]
    playback_inv_preserved [of "playing ''a.mp3'' 10" "env_ok 12" "''b.mp3''" 2] h
  show ?thesis by simp
qed

text \<open>
  C3, as stated, fails: while \<open>a.mp3\<close> is playing, a request for \<open>b.mp3\<close> (an existing,
  non-empty file, after the minimum interval) whose \<open>load\<close> raises returns false, yet the
  track that was playing has been stopped: \<open>current_song\<close> went from \<open>a.mp3\<close> to none and
  \<open>is_playing\<close> from true to false.
\<close>

theorem play_song_false_changes_state:
  "\<not> fst (play_song (env_load_fails 12 ''b.mp3'') (playing ''a.mp3'' 10) ''b.mp3'') \<and>
   current_song (playing ''a.mp3'' 10) = Some ''a.mp3'' \<and>
   is_playing (playing ''a.mp3'' 10) \<and>
   current_song (snd (play_song (env_load_fails 12 ''b.mp3'') (playing ''a.mp3'' 10) ''b.mp3''))
     = None \<and>
   \<not> is_playing (snd (play_song (env_load_fails 12 ''b.mp3'') (playing ''a.mp3'' 10) ''b.mp3''))"
  by (simp add: play_song_def stop_song_def issue_def env_load_fails_def playing_def
      min_play_interval_def)

text \<open>
  C3, amended. Whenever \<open>play_song\<close> returns false, \<open>volume\<close> and \<open>last_play_time\<close> are
  exactly as before the call. \<open>current_song\<close> and \<open>is_playing\<close> are as before too when
  nothing was playing, when the call fails at a guard (minimum interval, missing file,
  unreadable or empty file), or when stopping the mixer raised; otherwise a track was
  playing and has been stopped before the failed load or start, so \<open>current_song\<close> is none
  and \<open>is_playing\<close> is false.
\<close>

theorem play_song_false_frame:
  assumes "\<not> fst (play_song e s p)"
  shows "volume (snd (play_song e s p)) = volume s \<and>
         last_play_time (snd (play_song e s p)) = last_play_time s \<and>
         (if is_playing s \<and> \<not> now e - last_play_time s < 1 \<and> path_exists e p \<and>
             getsize e p \<noteq> None \<and> getsize e p \<noteq> Some 0 \<and> \<not> mixer_raises e MStop
          then current_song (snd (play_song e s p)) = None \<and>
               \<not> is_playing (snd (play_song e s p))
          else current_song (snd (play_song e s p)) = current_song s \<and>
               is_playing (snd (play_song e s p)) = is_playing s)"
  using assms
  by (auto simp: play_song_def stop_song_def issue_def Let_def min_play_interval_def
      split: option.splits if_splits)

theorem play_song_false_frame_witness:
  "\<not> fst (play_song (env_mixer_down 12) init_player ''b.mp3'') \<and>
   volume (snd (play_song (env_mixer_down 12) init_player ''b.mp3'')) = 1 / 2 \<and>
   last_play_time (snd (play_song (env_mixer_down 12) init_player ''b.mp3'')) = 0 \<and>
   current_song (snd (play_song (env_mixer_down 12) init_player ''b.mp3'')) = None \<and>
   \<not> is_playing (snd (play_song (env_mixer_down 12) init_player ''b.mp3'')) \<and>
   \<not> fst (play_song (env_ok (21 / 2)) (playing ''a.mp3'' 10) ''b.mp3'') \<and>
   volume (snd (play_song (env_ok (21 / 2)) (playing ''a.mp3'' 10) ''b.mp3'')) = 1 / 2 \<and>
   last_play_time (snd (play_song (env_ok (21 / 2)) (playing ''a.mp3'' 10) ''b.mp3'')) = 10 \<and>
   current_song (snd (play_song (env_ok (21 / 2)) (playing ''a.mp3'' 10) ''b.mp3''))
     = Some ''a.mp3'' \<and>
   is_playing (snd (play_song (env_ok (21 / 2)) (playing ''a.mp3'' 10) ''b.mp3'')) \<and>
   \<not> fst (play_song (env_load_fails 12 ''b.mp3'') (playing ''a.mp3'' 10) ''b.mp3'') \<and>
   volume (snd (play_song (env_load_fails 12 ''b.mp3'') (playing ''a.mp3'' 10) ''b.mp3''))
     = 1 / 2 \<and>
   last_play_time (snd (play_song (env_load_fails 12 ''b.mp3'') (playing ''a.mp3'' 10) ''b.mp3''))
     = 10 \<and>
   current_song (snd (play_song (env_load_fails 12 ''b.mp3'') (playing ''a.mp3'' 10) ''b.mp3''))
     = None"
proof -
  have c: "\<not> fst (play_song (env_load_fails 12 ''b.mp3'') (playing ''a.mp3'' 10) ''b.mp3'')"
    by (simp add: play_song_def stop_song_def issue_def env_load_fails_def playing_def
        min_play_interval_def)
  have j: "now (env_load_fails 12 ''b.mp3'') = 12"
    "path_exists (env_load_fails 12 ''b.mp3'') ''b.mp3''"
    "getsize (env_load_fails 12 ''b.mp3'') ''b.mp3'' = Some 4096"
    "\<not> mixer_raises (env_load_fails 12 ''b.mp3'') MStop"
    by (simp_all add: env_load_fails_def)
  have a: "\<not> fst (play_song (env_mixer_down 12) init_player ''b.mp3'')"
    by (simp add: play_song_def issue_def env_mixer_down_def init_player_def
        min_play_interval_def)
  have b: "\<not> fst (play_song (env_ok (21 / 2)) (playing ''a.mp3'' 10) ''b.mp3'')"
    by (simp add: play_song_def env_ok_def playing_def min_play_interval_def)
  have i: "volume init_player = 1 / 2" "last_play_time init_player = 0"
    "current_song init_player = None" "\<not> is_playing init_player"
    "volume (playing ''a.mp3'' 10) = 1 / 2" "last_play_time (playing ''a.mp3'' 10) = 10"
    "current_song (playing ''a.mp3'' 10) = Some ''a.mp3''" "is_playing (playing ''a.mp3'' 10)"
    "now (env_ok (21 / 2)) = 21 / 2"
    by (simp_all add: init_player_def playing_def env_ok_def)
  from play_song_false_frame [OF a] play_song_false_frame [OF b]
    play_song_false_frame [OF c] a b c i j
  show ?thesis by simp
qed

text \<open>
  C2, as stated, fails: the interval guard is tested before the already-playing test.
  From the initial state a first call at time 10 starts \<open>a.mp3\<close> and returns true; a
  second call for the same path at the same instant returns false.
\<close>

theorem play_song_twice_second_false:
  "fst (play_song (env_ok 10) init_player ''a.mp3'') \<and>
   \<not> fst (play_song (env_ok 10) (snd (play_song (env_ok 10) init_player ''a.mp3'')) ''a.mp3'')"
  by (simp add: play_song_fresh_start)
    (simp add: play_song_def env_ok_def playing_def min_play_interval_def)

text \<open>
  C2, amended. After a call of \<open>play_song\<close> that returned true, a second call with the
  same path changes nothing at all (no attribute, and no call to the mixer: the track
  is neither reloaded nor restarted); it returns true when at least the minimum
  interval (1.0) has passed since the stored start time and false when it has not, so
  two calls in immediate succession that start a track return true, then false.
\<close>

theorem play_song_twice_same_path:
  assumes "fst (play_song e1 s p)"
  shows "snd (play_song e2 (snd (play_song e1 s p)) p) = snd (play_song e1 s p) \<and>
         fst (play_song e2 (snd (play_song e1 s p)) p) =
           (1 \<le> now e2 - last_play_time (snd (play_song e1 s p)))"
  using play_song_True_state [OF assms]
  by (simp add: play_song_already_playing min_play_interval_def)

theorem play_song_twice_same_path_witness:
  "fst (play_song (env_ok 10) init_player ''a.mp3'') \<and>
   snd (play_song (env_ok 12) (playing ''a.mp3'' 10) ''a.mp3'') = playing ''a.mp3'' 10 \<and>
   fst (play_song (env_ok 12) (playing ''a.mp3'' 10) ''a.mp3'') \<and>
   snd (play_song (env_ok (21 / 2)) (playing ''a.mp3'' 10) ''a.mp3'') = playing ''a.mp3'' 10 \<and>
   \<not> fst (play_song (env_ok (21 / 2)) (playing ''a.mp3'' 10) ''a.mp3'')"
proof -
  have a: "fst (play_song (env_ok 10) init_player ''a.mp3'')"
    by (simp add: play_song_fresh_start)
  have l: "last_play_time (playing ''a.mp3'' 10) = 10" "now (env_ok 12) = 12"
    "now (env_ok (21 / 2)) = 21 / 2"
    by (simp_all add: playing_def env_ok_def)
  from play_song_twice_same_path [OF a, of "env_ok 12"]
    play_song_twice_same_path [OF a, of "env_ok (21 / 2)"] a l
  show ?thesis by (simp add: play_song_fresh_start)
qed

text \<open>
  C6, as stated, fails in its last part: \<open>set_volume\<close> returns false when the mixer call
  raises (the \<open>except\<close> branch of the source), here for \<open>set_volume(2)\<close>.
\<close>

theorem set_volume_can_return_false:
  "\<not> fst (set_volume (env_mixer_down 12) init_player 2)"
  by (simp add: set_volume_def env_mixer_down_def)

text \<open>
  C6, amended. For every number \<open>v\<close>, \<open>set_volume(v)\<close> stores \<open>v\<close> clamped to [0,1] as the
  volume and sends exactly that value to the mixer, changing nothing else;
  \<open>set_volume(-1)\<close> stores 0 and \<open>set_volume(2)\<close> stores 1. It returns true exactly when
  the mixer call does not raise.
\<close>

theorem set_volume_clamps:
  "volume (snd (set_volume e s v)) = max 0 (min 1 v) \<and>
   0 \<le> volume (snd (set_volume e s v)) \<and> volume (snd (set_volume e s v)) \<le> 1 \<and>
   volume (snd (set_volume e s (- 1))) = 0 \<and>
   volume (snd (set_volume e s 2)) = 1 \<and>
   snd (set_volume e s v) =
     s\<lparr>volume := max 0 (min 1 v), mixer_log := mixer_log s @ [MSetVolume (max 0 (min 1 v))]\<rparr> \<and>
   fst (set_volume e s v) = (\<not> mixer_raises e (MSetVolume (max 0 (min 1 v))))"
  by (simp add: set_volume_def issue_def Let_def)

section \<open>Emotion classifier adapter: results\<close>

lemma py_max_sad_face:
  "py_max [(''angry'', 1 / 10), (''sad'', 7 / 10), (''neutral'', 2 / 10)] = Inr (''sad'', 7 / 10)"
  by (simp add: py_max_def)

text \<open>
  C8. The table has exactly the seven labels happy, sad, angry, neutral, fear,
  surprise, disgust, each with its fixed pair; any other label maps to (0, 0).
  \<open>detect_emotion\<close> returns the dominant label of the first face with that label's
  pair; with no face it returns (none, 0, 0); and when the detector raises, or the
  dominant label cannot be computed, it returns (none, 0, 0) instead of raising.
\<close>

theorem detect_emotion_mapping:
  "map fst emotion_map =
     [''happy'', ''sad'', ''angry'', ''neutral'', ''fear'', ''surprise'', ''disgust''] \<and>
   emotion_to_valence_arousal ''happy'' = (8 / 10, 8 / 10) \<and>
   emotion_to_valence_arousal ''sad'' = (- (8 / 10), - (4 / 10)) \<and>
   emotion_to_valence_arousal ''angry'' = (- (7 / 10), 8 / 10) \<and>
   emotion_to_valence_arousal ''neutral'' = (0, 0) \<and>
   emotion_to_valence_arousal ''fear'' = (- (8 / 10), 5 / 10) \<and>
   emotion_to_valence_arousal ''surprise'' = (4 / 10, 8 / 10) \<and>
   emotion_to_valence_arousal ''disgust'' = (- (8 / 10), 1 / 10) \<and>
   (label \<notin> {''happy'', ''sad'', ''angry'', ''neutral'', ''fear'', ''surprise'', ''disgust''}
      \<longrightarrow> emotion_to_valence_arousal label = (0, 0)) \<and>
   (detector frame = Inl err \<longrightarrow> detect_emotion detector frame = (None, 0, 0)) \<and>
   (detector frame = Inr [] \<longrightarrow> detect_emotion detector frame = (None, 0, 0)) \<and>
   (detector frame = Inr (face # faces) \<and> py_max face = Inl err
      \<longrightarrow> detect_emotion detector frame = (None, 0, 0)) \<and>
   (detector frame = Inr (face # faces) \<and> py_max face = Inr (dominant, score)
      \<longrightarrow> detect_emotion detector frame = (Some dominant, emotion_to_valence_arousal dominant))"
proof -
  have known: "map fst emotion_map =
     [''happy'', ''sad'', ''angry'', ''neutral'', ''fear'', ''surprise'', ''disgust'']"
    by (simp add: emotion_map_def)
  have pairs: "emotion_to_valence_arousal ''happy'' = (8 / 10, 8 / 10)"
    "emotion_to_valence_arousal ''sad'' = (- (8 / 10), - (4 / 10))"
    "emotion_to_valence_arousal ''angry'' = (- (7 / 10), 8 / 10)"
    "emotion_to_valence_arousal ''neutral'' = (0, 0)"
    "emotion_to_valence_arousal ''fear'' = (- (8 / 10), 5 / 10)"
    "emotion_to_valence_arousal ''surprise'' = (4 / 10, 8 / 10)"
    "emotion_to_valence_arousal ''disgust'' = (- (8 / 10), 1 / 10)"
    by (simp_all add: emotion_to_valence_arousal_def emotion_map_def)
  have unknown: "emotion_to_valence_arousal label = (0, 0)"
    if "label \<notin> {''happy'', ''sad'', ''angry'', ''neutral'', ''fear'', ''surprise'', ''disgust''}"
  proof -
    from that known have "label \<notin> fst ` set emotion_map"
      by (metis list.set_map list.simps(15) empty_set)
    then have "map_of emotion_map label = None"
      by (simp add: map_of_eq_None_iff)
    then show ?thesis by (simp add: emotion_to_valence_arousal_def)
  qed
  have detect: "detector frame = Inl err \<longrightarrow> detect_emotion detector frame = (None, 0, 0)"
    "detector frame = Inr [] \<longrightarrow> detect_emotion detector frame = (None, 0, 0)"
    "detector frame = Inr (face # faces) \<and> py_max face = Inl err
      \<longrightarrow> detect_emotion detector frame = (None, 0, 0)"
    "detector frame = Inr (face # faces) \<and> py_max face = Inr (dominant, score)
      \<longrightarrow> detect_emotion detector frame = (Some dominant, emotion_to_valence_arousal dominant)"
    by (auto simp: detect_emotion_def split: prod.splits)
  from known pairs unknown detect show ?thesis by blast
qed

theorem detect_emotion_mapping_witness:
  "emotion_to_valence_arousal ''bored'' = (0, 0) \<and>
   detect_emotion (\<lambda>_. Inl DetectorError) () = (None, 0, 0) \<and>
   detect_emotion (\<lambda>_. Inr []) () = (None, 0, 0) \<and>
   detect_emotion (\<lambda>_. Inr [[]]) () = (None, 0, 0) \<and>
   detect_emotion sad_face () = (Some ''sad'', - (8 / 10), - (4 / 10))"
proof -
  have a: "''bored'' \<notin> {''happy'', ''sad'', ''angry'', ''neutral'', ''fear'', ''surprise'', ''disgust''}"
    by simp
  have b: "py_max [] = Inl ValueError"
    by (simp add: py_max_def)
  have c: "sad_face () =
      Inr ([(''angry'', 1 / 10), (''sad'', 7 / 10), (''neutral'', 2 / 10)] # [])"
    by (simp add: sad_face_def)
  from detect_emotion_mapping [of "''bored''" "\<lambda>_. Inl DetectorError" "()" DetectorError]
    detect_emotion_mapping [of "''bored''" "\<lambda>_. Inr []" "()"]
    detect_emotion_mapping [of "''bored''" "\<lambda>_. Inr [[]]" "()" ValueError "[]" "[]"]
    detect_emotion_mapping [of "''bored''" sad_face "()" ValueError
      "[(''angry'', 1 / 10), (''sad'', 7 / 10), (''neutral'', 2 / 10)]" "[]" "''sad''" "7 / 10"]
    a b c py_max_sad_face
  show ?thesis by simp
qed

section \<open>Song matcher: results\<close>

lemma loc_mem: "loc df l = Inr c \<Longrightarrow> c \<in> set df \<and> idx c = l"
  unfolding loc_def
  by (auto split: list.splits dest: filter_eq_ConsD)




lemma computed_distance_update [simp]:
  "computed_distance ops v a (r\<lparr>distance := d\<rparr>) = computed_distance ops v a r"
  by (simp add: computed_distance_def)

lemma assign_distance_idx [simp]: "map idx (assign_distance ops v a df) = map idx df"
  by (simp add: assign_distance_def)

lemma assign_distance_length [simp]: "length (assign_distance ops v a df) = length df"
  by (simp add: assign_distance_def)










lemma find_matching_song_labels:
  "idx ` set (snd (find_matching_song depth ops ex df v a)) \<subseteq> idx ` set df \<and>
   (\<forall>r. fst (find_matching_song depth ops ex df v a) = Some r \<longrightarrow> idx r \<in> idx ` set df)"
proof (induction depth arbitrary: df)
  case 0
  show ?case by simp
next
  case (Suc depth)
  define df' where "df' = assign_distance ops v a df"
  have "set (map idx df') = set (map idx df)"
    unfolding df'_def by (simp only: assign_distance_idx)
  then have lab: "idx ` set df' = idx ` set df" by (simp only: set_map)
  show ?case
  proof (cases "idxmin df'")
    case (Inl e)
    then have "find_matching_song (Suc depth) ops ex df v a = (None, df')"
      by (simp add: df'_def [symmetric])
    with lab show ?thesis by simp
  next
    case (Inr l)
    show ?thesis
    proof (cases "loc df' l")
      case (Inl e)
      with Inr have "find_matching_song (Suc depth) ops ex df v a = (None, df')"
        by (simp add: df'_def [symmetric])
      with lab show ?thesis by simp
    next
      case c: (Inr c)
      then have cm: "c \<in> set df'" using loc_mem by blast
      show ?thesis
      proof (cases "ex (audio_path c)")
        case True
        with Inr c have r1: "find_matching_song (Suc depth) ops ex df v a = (Some c, df')"
          by (simp add: df'_def [symmetric])
        from cm have "idx c \<in> idx ` set df'" by (rule imageI)
        with lab show ?thesis unfolding r1 by simp
      next
        case False
        define df'' where "df'' = filter (\<lambda>r. idx r \<noteq> idx c) df'"
        from False Inr c have res: "find_matching_song (Suc depth) ops ex df v a =
            find_matching_song depth ops ex df'' v a"
          by (simp add: df'_def [symmetric] df''_def)
        have "set df'' \<subseteq> set df'" by (simp add: df''_def)
        then have "idx ` set df'' \<subseteq> idx ` set df'" by (rule image_mono)
        with lab have sub: "idx ` set df'' \<subseteq> idx ` set df" by simp
        from Suc.IH [of df'']
        have ih1: "idx ` set (snd (find_matching_song depth ops ex df'' v a)) \<subseteq> idx ` set df''"
          and ih2: "\<forall>r. fst (find_matching_song depth ops ex df'' v a) = Some r \<longrightarrow>
                idx r \<in> idx ` set df''"
          by simp_all
        from ih1 sub have "idx ` set (snd (find_matching_song depth ops ex df'' v a)) \<subseteq> idx ` set df"
          by (rule subset_trans)
        moreover from ih2 sub
        have "\<forall>r. fst (find_matching_song depth ops ex df'' v a) = Some r \<longrightarrow> idx r \<in> idx ` set df"
          by (meson subsetD)
        ultimately show ?thesis unfolding res by simp
      qed
    qed
  qed
qed

lemma find_matching_song_keeps_distinct:
  "distinct (map idx df) \<Longrightarrow> distinct (map idx (snd (find_matching_song depth ops ex df v a)))"
proof (induction depth arbitrary: df)
  case 0
  then show ?case by simp
next
  case (Suc depth)
  define df' where "df' = assign_distance ops v a df"
  have dist': "distinct (map idx df')" using Suc.prems by (simp add: df'_def)
  show ?case
  proof (cases "idxmin df'")
    case (Inl e)
    then have "find_matching_song (Suc depth) ops ex df v a = (None, df')"
      by (simp add: df'_def [symmetric])
    with dist' show ?thesis by simp
  next
    case (Inr l)
    show ?thesis
    proof (cases "loc df' l")
      case (Inl e)
      with Inr have "find_matching_song (Suc depth) ops ex df v a = (None, df')"
        by (simp add: df'_def [symmetric])
      with dist' show ?thesis by simp
    next
      case c: (Inr c)
      show ?thesis
      proof (cases "ex (audio_path c)")
        case True
        with Inr c have "find_matching_song (Suc depth) ops ex df v a = (Some c, df')"
          by (simp add: df'_def [symmetric])
        with dist' show ?thesis by simp
      next
        case False
        define df'' where "df'' = filter (\<lambda>r. idx r \<noteq> idx c) df'"
        from False Inr c have res: "find_matching_song (Suc depth) ops ex df v a =
            find_matching_song depth ops ex df'' v a"
          by (simp add: df'_def [symmetric] df''_def)
        have "distinct (map idx df'')" using dist' by (simp add: df''_def distinct_map_filter)
        from Suc.IH [OF this] show ?thesis unfolding res .
      qed
    qed
  qed
qed

lemma run_queries_labels:
  "idx ` set (snd (run_queries ops df qs)) \<subseteq> idx ` set df \<and>
   (\<forall>r. Some r \<in> set (fst (run_queries ops df qs)) \<longrightarrow> idx r \<in> idx ` set df)"
proof (induction qs arbitrary: df)
  case Nil
  show ?case by simp
next
  case (Cons q qs)
  obtain depth ex v a where q: "q = (depth, ex, v, a)" by (cases q)
  obtain r df' where f: "find_matching_song depth ops ex df v a = (r, df')"
    by (cases "find_matching_song depth ops ex df v a")
  obtain rs df'' where g: "run_queries ops df' qs = (rs, df'')"
    by (cases "run_queries ops df' qs")
  from find_matching_song_labels [of depth ops ex df v a] f
  have s1: "idx ` set df' \<subseteq> idx ` set df"
    and r1: "\<forall>x. r = Some x \<longrightarrow> idx x \<in> idx ` set df" by simp_all
  from Cons.IH [of df'] g
  have s2: "idx ` set df'' \<subseteq> idx ` set df'"
    and r2: "\<forall>x. Some x \<in> set rs \<longrightarrow> idx x \<in> idx ` set df'" by simp_all
  have res: "snd (run_queries ops df (q # qs)) = df''"
    "fst (run_queries ops df (q # qs)) = r # rs"
    by (simp_all add: q f g)
  from s2 s1 have a: "idx ` set df'' \<subseteq> idx ` set df" by (rule subset_trans)
  have b: "idx x \<in> idx ` set df" if "Some x \<in> set (r # rs)" for x
  proof (cases "r = Some x")
    case True
    with r1 show ?thesis by simp
  next
    case False
    with that have "Some x \<in> set rs" by auto
    with r2 have "idx x \<in> idx ` set df'" by simp
    with s1 show ?thesis by (rule subsetD)
  qed
  from a b show ?case unfolding res by simp
qed


lemma computed_distance_exact:
  "computed_distance exact_ops v a r =
     sqrt ((valence_average r - v)\<^sup>2 + (arousal_average r - a)\<^sup>2)"
  by (simp add: computed_distance_def exact_ops_def)





lemma example_query_at_song2:
  "find_matching_song (Suc (Suc d)) exact_ops only_song1_on_disk [song1, song2]
       (- (8 / 10)) (- (4 / 10)) =
     (Some (song1\<lparr>distance := computed_distance exact_ops (- (8 / 10)) (- (4 / 10)) song1\<rparr>),
      [song1\<lparr>distance := computed_distance exact_ops (- (8 / 10)) (- (4 / 10)) song1\<rparr>])"
  by (simp add: assign_distance_def idxmin_def loc_def
      song1_def song2_def only_song1_on_disk_def computed_distance_exact power2_eq_square)


lemma example_later_query:
  "fst (run_queries exact_ops
       [song1\<lparr>distance := computed_distance exact_ops (- (8 / 10)) (- (4 / 10)) song1\<rparr>]
       [(Suc d, \<lambda>p. True, - (8 / 10), - (4 / 10))]) =
     [Some (song1\<lparr>distance := computed_distance exact_ops (- (8 / 10)) (- (4 / 10)) song1\<rparr>)]"
  by (simp add: assign_distance_def idxmin_def loc_def song1_def computed_distance_exact)




text \<open>
  C7. When the row nearest to the query (label \<open>l\<close>) has no audio file, an invocation
  that the recursion limit admits gives what the search on the table without that row
  gives; no row labelled \<open>l\<close> is left in the table afterwards; the call does not return
  it; and in any later sequence of queries on the table it left, whatever the file
  system and the recursion depth then are, no result carries that label and the table
  never contains it again. This holds for every float64 arithmetic.
\<close>

theorem missing_file_row_removed:
  assumes "idxmin (assign_distance ops v a df) = Inr l"
    and "loc (assign_distance ops v a df) l = Inr c"
    and "\<not> ex (audio_path c)"
  shows "find_matching_song (Suc depth) ops ex df v a =
           find_matching_song depth ops ex
             (filter (\<lambda>r. idx r \<noteq> l) (assign_distance ops v a df)) v a \<and>
         l \<notin> idx ` set (snd (find_matching_song (Suc depth) ops ex df v a)) \<and>
         (\<forall>r. fst (find_matching_song (Suc depth) ops ex df v a) = Some r \<longrightarrow> idx r \<noteq> l) \<and>
         (\<forall>qs r. Some r \<in> set (fst (run_queries ops
                      (snd (find_matching_song (Suc depth) ops ex df v a)) qs))
            \<longrightarrow> idx r \<noteq> l) \<and>
         (\<forall>qs. l \<notin> idx ` set (snd (run_queries ops
                      (snd (find_matching_song (Suc depth) ops ex df v a)) qs)))"
proof -
  define reduced where "reduced = filter (\<lambda>r. idx r \<noteq> l) (assign_distance ops v a df)"
  from assms(2) have lc: "idx c = l" using loc_mem by blast
  with assms have res: "find_matching_song (Suc depth) ops ex df v a =
      find_matching_song depth ops ex reduced v a"
    by (simp add: reduced_def)
  have nl: "l \<notin> idx ` set reduced" by (auto simp: reduced_def)
  from find_matching_song_labels [of depth ops ex reduced v a] nl res
  have a: "l \<notin> idx ` set (snd (find_matching_song (Suc depth) ops ex df v a))"
    and b: "\<forall>r. fst (find_matching_song (Suc depth) ops ex df v a) = Some r \<longrightarrow> idx r \<noteq> l"
    by auto
  have "\<forall>r. Some r \<in> set (fst (run_queries ops
          (snd (find_matching_song (Suc depth) ops ex df v a)) qs)) \<longrightarrow> idx r \<noteq> l"
    and "l \<notin> idx ` set (snd (run_queries ops
          (snd (find_matching_song (Suc depth) ops ex df v a)) qs))" for qs
    using run_queries_labels [of ops "snd (find_matching_song (Suc depth) ops ex df v a)" qs] a
    by auto
  with res a b show ?thesis unfolding reduced_def by blast
qed

theorem missing_file_row_removed_witness:
  "idxmin (assign_distance exact_ops (- (8 / 10)) (- (4 / 10)) [song1, song2]) = Inr 1 \<and>
   loc (assign_distance exact_ops (- (8 / 10)) (- (4 / 10)) [song1, song2]) 1 = Inr song2 \<and>
   \<not> only_song1_on_disk (audio_path song2) \<and>
   find_matching_song (Suc 999) exact_ops only_song1_on_disk [song1, song2]
       (- (8 / 10)) (- (4 / 10)) =
     (Some (song1\<lparr>distance := computed_distance exact_ops (- (8 / 10)) (- (4 / 10)) song1\<rparr>),
      [song1\<lparr>distance := computed_distance exact_ops (- (8 / 10)) (- (4 / 10)) song1\<rparr>]) \<and>
   1 \<notin> idx ` set (snd (find_matching_song (Suc 999) exact_ops only_song1_on_disk [song1, song2]
                          (- (8 / 10)) (- (4 / 10)))) \<and>
   1 \<notin> idx ` set (snd (run_queries exact_ops
       (snd (find_matching_song (Suc 999) exact_ops only_song1_on_disk [song1, song2]
              (- (8 / 10)) (- (4 / 10))))
       [(Suc 999, \<lambda>p. True, - (8 / 10), - (4 / 10))])) \<and>
   fst (run_queries exact_ops
       [song1\<lparr>distance := computed_distance exact_ops (- (8 / 10)) (- (4 / 10)) song1\<rparr>]
       [(Suc 999, \<lambda>p. True, - (8 / 10), - (4 / 10))]) =
     [Some (song1\<lparr>distance := computed_distance exact_ops (- (8 / 10)) (- (4 / 10)) song1\<rparr>)]"
proof -
  have a: "idxmin (assign_distance exact_ops (- (8 / 10)) (- (4 / 10)) [song1, song2]) = Inr 1"
    by (simp add: idxmin_def assign_distance_def song1_def song2_def computed_distance_exact
        power2_eq_square)
  have b: "loc (assign_distance exact_ops (- (8 / 10)) (- (4 / 10)) [song1, song2]) 1 = Inr song2"
    by (simp add: loc_def assign_distance_def song1_def song2_def computed_distance_exact)
  have c: "\<not> only_song1_on_disk (audio_path song2)"
    by (simp add: only_song1_on_disk_def song2_def)
  have d: "fst (run_queries exact_ops
       [song1\<lparr>distance := computed_distance exact_ops (- (8 / 10)) (- (4 / 10)) song1\<rparr>]
       [(Suc 999, \<lambda>p. True, - (8 / 10), - (4 / 10))]) =
     [Some (song1\<lparr>distance := computed_distance exact_ops (- (8 / 10)) (- (4 / 10)) song1\<rparr>)]"
    by (rule example_later_query)
  have e: "(999::nat) = Suc 998" by simp
  have q: "find_matching_song (Suc 999) exact_ops only_song1_on_disk [song1, song2]
       (- (8 / 10)) (- (4 / 10)) =
     (Some (song1\<lparr>distance := computed_distance exact_ops (- (8 / 10)) (- (4 / 10)) song1\<rparr>),
      [song1\<lparr>distance := computed_distance exact_ops (- (8 / 10)) (- (4 / 10)) song1\<rparr>])"
    unfolding e by (rule example_query_at_song2)
  note t = missing_file_row_removed [of exact_ops "- (8 / 10)" "- (4 / 10)" "[song1, song2]" 1
      song2 only_song1_on_disk 999, OF a b c]
  from t have t1: "1 \<notin> idx ` set (snd (find_matching_song (Suc 999) exact_ops only_song1_on_disk
        [song1, song2] (- (8 / 10)) (- (4 / 10))))"
    by (elim conjE)
  from t have "\<forall>qs. 1 \<notin> idx ` set (snd (run_queries exact_ops
       (snd (find_matching_song (Suc 999) exact_ops only_song1_on_disk [song1, song2]
              (- (8 / 10)) (- (4 / 10))))
       qs))"
    by (elim conjE)
  then have t2: "1 \<notin> idx ` set (snd (run_queries exact_ops
       (snd (find_matching_song (Suc 999) exact_ops only_song1_on_disk [song1, song2]
              (- (8 / 10)) (- (4 / 10))))
       [(Suc 999, \<lambda>p. True, - (8 / 10), - (4 / 10))]))"
    by (rule spec)
  from a b c q t1 t2 d show ?thesis by (intro conjI)
qed

section \<open>Dataset loader: results\<close>

lemma groupby_mean_ids: "l_song_id ` set (groupby_mean labels) = l_song_id ` set labels"
  by (auto simp: groupby_mean_def Let_def image_iff)

lemma set_matching_rows:
  "set (matching_rows features_df labels_df) =
     {(f, l). f \<in> set features_df \<and> l \<in> set labels_df \<and> l_song_id l = f_song_id f}"
  by (auto simp: matching_rows_def)

lemma merge_song_ids:
  "map song_id (merge features_df labels_df) =
     map (\<lambda>(f, l). f_song_id f) (matching_rows features_df labels_df)"
proof -
  have "map song_id (merge features_df labels_df) =
      map ((\<lambda>(f, l). f_song_id f) \<circ> snd) (enumerate 0 (matching_rows features_df labels_df))"
    by (simp add: merge_def comp_def case_prod_beta)
  also have "\<dots> = map (\<lambda>(f, l). f_song_id f)
      (map snd (enumerate 0 (matching_rows features_df labels_df)))"
    by (simp only: map_map)
  finally show ?thesis by (simp only: map_snd_enumerate)
qed

lemma merge_ids:
  "song_id ` set (merge features_df labels_df) =
     f_song_id ` set features_df \<inter> l_song_id ` set labels_df"
proof -
  have "song_id ` set (merge features_df labels_df) =
      (\<lambda>(f, l). f_song_id f) ` set (matching_rows features_df labels_df)"
    using merge_song_ids [of features_df labels_df] by (metis set_map)
  also have "\<dots> = f_song_id ` set features_df \<inter> l_song_id ` set labels_df"
    unfolding set_matching_rows by (auto simp: image_iff) metis
  finally show ?thesis .
qed

lemma merge_idx: "map idx (merge features_df labels_df) = [0..<length (merge features_df labels_df)]"
proof -
  have "map idx (merge features_df labels_df) =
      map fst (enumerate 0 (matching_rows features_df labels_df))"
    by (simp add: merge_def comp_def case_prod_beta)
  then show ?thesis by (simp add: merge_def)
qed

lemma set_song_id_range: "set song_id_range = {k. 2 \<le> k \<and> k \<le> 2057}"
  unfolding song_id_range_def by (simp only: set_upto atLeastAtMost_def atLeast_def atMost_def) blast

lemma load_features_song_ids:
  "map f_song_id (load_features read_features audio_file) =
     filter (\<lambda>k. read_features k \<noteq> None) song_id_range"
proof -
  have "map f_song_id (concat (map (\<lambda>song_id.
        case read_features song_id of
          None \<Rightarrow> []
        | Some mean_features \<Rightarrow>
            [\<lparr>f_song_id = song_id, f_features = mean_features,
              f_audio_path = audio_file song_id\<rparr>]) ks)) =
      filter (\<lambda>k. read_features k \<noteq> None) ks" for ks
    by (induction ks) (simp_all split: option.splits)
  then show ?thesis by (simp only: load_features_def)
qed

lemma load_features_ids:
  "f_song_id ` set (load_features read_features audio_file) =
     {k. 2 \<le> k \<and> k \<le> 2057 \<and> read_features k \<noteq> None}"
proof -
  have "f_song_id ` set (load_features read_features audio_file) =
      set (filter (\<lambda>k. read_features k \<noteq> None) song_id_range)"
    using load_features_song_ids [of read_features audio_file] by (metis set_map)
  then show ?thesis by (simp only: set_filter set_song_id_range mem_Collect_eq) blast
qed

lemma load_dataset_song_ids:
  assumes "load_dataset read_features audio_file (Inr labels_1) (Inr labels_2) = Inr tbl"
  shows "song_id ` set tbl =
           {k. 2 \<le> k \<and> k \<le> 2057 \<and> read_features k \<noteq> None} \<inter>
           (l_song_id ` set labels_1 \<union> l_song_id ` set labels_2)"
proof -
  from assms have "tbl = merge (load_features read_features audio_file)
      (groupby_mean (labels_1 @ labels_2))"
    by (simp add: load_dataset_def Let_def split: if_splits)
  then show ?thesis
    by (simp add: merge_ids groupby_mean_ids load_features_ids image_Un)
qed

lemma load_dataset_distinct_idx:
  assumes "load_dataset read_features audio_file annotations_1 annotations_2 = Inr tbl"
  shows "distinct (map idx tbl)"
proof -
  from assms obtain fs ls where "tbl = merge fs ls"
    by (auto simp: load_dataset_def Let_def split: if_splits sum.splits)
  then show ?thesis by (simp add: merge_idx)
qed

lemma two_feature_files_loaded:
  "load_features two_feature_files mp3_of =
     [\<lparr>f_song_id = 2, f_features = [1, 2], f_audio_path = ''2.mp3''\<rparr>,
      \<lparr>f_song_id = 3, f_features = [1, 2], f_audio_path = ''3.mp3''\<rparr>]"
  by (simp add: load_features_def song_id_range_def two_feature_files_def mp3_of_def)

lemma small_dataset_loaded:
  "load_dataset two_feature_files mp3_of (Inr annotation_of_song2) (Inr []) =
     Inr [\<lparr>idx = 0, song_id = 2, features = [1, 2], audio_path = ''2.mp3'',
           valence_average = 1 / 2, arousal_average = 1 / 4\<rparr>]"
  by (simp add: load_dataset_def two_feature_files_loaded annotation_of_song2_def
      groupby_mean_def mean_def merge_def matching_rows_def)

text \<open>
  C9. A song that occurs in neither annotation table is in no row of the table that
  \<open>load_dataset\<close> produces, whether or not it has a feature file: the merge of features
  and labels on \<open>song_id\<close> keeps only ids present on both sides.
\<close>

theorem load_dataset_inner_join:
  assumes "sid \<notin> l_song_id ` set labels_1" and "sid \<notin> l_song_id ` set labels_2"
    and "load_dataset read_features audio_file (Inr labels_1) (Inr labels_2) = Inr tbl"
  shows "sid \<notin> song_id ` set tbl"
  using assms(1,2) unfolding load_dataset_song_ids [OF assms(3)] by simp

theorem load_dataset_inner_join_witness:
  "3 \<notin> l_song_id ` set annotation_of_song2 \<and>
   3 \<notin> l_song_id ` set ([] :: label_row list) \<and>
   two_feature_files 3 = Some [1, 2] \<and>
   load_dataset two_feature_files mp3_of (Inr annotation_of_song2) (Inr []) =
     Inr [\<lparr>idx = 0, song_id = 2, features = [1, 2], audio_path = ''2.mp3'',
           valence_average = 1 / 2, arousal_average = 1 / 4\<rparr>] \<and>
   3 \<notin> song_id ` set [\<lparr>idx = 0, song_id = 2, features = [1, 2], audio_path = ''2.mp3'',
           valence_average = 1 / 2, arousal_average = 1 / 4\<rparr>]"
proof -
  have a: "3 \<notin> l_song_id ` set annotation_of_song2"
    by (simp add: annotation_of_song2_def)
  have b: "3 \<notin> l_song_id ` set ([] :: label_row list)"
    by simp
  have c: "two_feature_files 3 = Some [1, 2]"
    by (simp add: two_feature_files_def)
  from load_dataset_inner_join [OF a b small_dataset_loaded] a b c small_dataset_loaded
  show ?thesis by simp
qed

end
